theory Spec2Isabelle
  imports Main
begin

section \<open>The symbol table of the plugin framework\<close>

text \<open>
  A shallow embedding of \<^verbatim>\<open>packages/plugin-framework/src/symbol-table.ts\<close> and of
  \<^verbatim>\<open>packages/runtime/src/reflection-long-convert.ts\<close>.

  Descriptors and generated files are objects that the source only ever compares with
  \<^verbatim>\<open>===\<close>, that is by identity. Each is modelled as a handle carrying the identity
  of the object, so that equality of handles is identity of objects.
\<close>

datatype AnyTypeDescriptorProto = Descriptor nat

datatype GeneratedFile = File nat

text \<open>The interface \<^verbatim>\<open>SymbolTableEntry\<close>, with the field names of the source.\<close>

record SymbolTableEntry =
  "file" :: GeneratedFile
  descriptor :: AnyTypeDescriptorProto
  name :: string
  kind :: string

text \<open>
  The type \<^verbatim>\<open>ClashResolver\<close>: descriptor, file, requested name, kind, try count and
  failed name to the next candidate. The registry calls it as a function and uses only
  its return value; it is taken to be pure, a function of its six arguments. A resolver
  that wrote to the table it is called from is outside this model.
\<close>

type_synonym ClashResolver =
  "AnyTypeDescriptorProto \<Rightarrow> GeneratedFile \<Rightarrow> string \<Rightarrow> string \<Rightarrow> nat \<Rightarrow> string \<Rightarrow> string"

text \<open>
  The class \<^verbatim>\<open>SymbolTable\<close>: its mutable array \<^verbatim>\<open>entries\<close> and the resolver fixed
  by the constructor. \<^verbatim>\<open>clashResolveMaxTries\<close> is a read-only field initialised to 100.
\<close>

record SymbolTable =
  entries :: "SymbolTableEntry list"
  clashResolver :: ClashResolver

definition clashResolveMaxTries :: nat where
  "clashResolveMaxTries = 100"

text \<open>
  Every failure of the source is \<^verbatim>\<open>throw new Error(msg)\<close>; the three message
  templates are the three constructors, each carrying the values its template
  interpolates:
  \<^item> \<open>DuplicateRegistration requestedName kind descriptor file name\<close> for
    \<^verbatim>\<open>Cannot register name "..." of kind "..." for ... already registered in file "..." with name "..."\<close>;
  \<^item> \<open>ClashResolutionExhausted requestedName descriptor tries\<close> for
    \<^verbatim>\<open>Failed to register name "..." for ... Gave up finding alternative name after ... tries\<close>;
  \<^item> \<open>SymbolNotFound descriptor kind n\<close> for
    \<^verbatim>\<open>Failed to find name for ... of kind "...". Searched in n files.\<close>
\<close>

datatype error =
    DuplicateRegistration string string AnyTypeDescriptorProto GeneratedFile string
  | ClashResolutionExhausted string AnyTypeDescriptorProto nat
  | SymbolNotFound AnyTypeDescriptorProto string nat

subsection \<open>The default clash resolver\<close>

text \<open>
  The try count is a JavaScript number that \<^verbatim>\<open>register\<close> only ever sets to
  1, ..., 100; string concatenation renders such an integer in decimal. That holds for
  the integers below \<open>10^21\<close>: from there on JavaScript prints a number in exponent
  form, and \<open>number_toString\<close> is not what the source computes. The static resolver
  can be called with such a count directly; nothing below is stated for one.
\<close>

definition digit :: "nat \<Rightarrow> char" where
  "digit i = ''0123456789'' ! i"

fun number_toString :: "nat \<Rightarrow> string" where
  "number_toString n =
     (if n < 10 then [digit n]
      else number_toString (n div 10) @ [digit (n mod 10)])"

declare number_toString.simps [simp del]

text \<open>\<^verbatim>\<open>n.endsWith('$')\<close> and \<^verbatim>\<open>n.substring(1)\<close> on strings as character lists.\<close>

definition endsWith :: "string \<Rightarrow> string \<Rightarrow> bool" where
  "endsWith n s = (length s \<le> length n \<and> drop (length n - length s) n = s)"

definition substring :: "string \<Rightarrow> nat \<Rightarrow> string" where
  "substring n start = drop start n"

text \<open>
  \<^verbatim>\<open>
  static defaultClashResolver(descriptor, file, requestedName, kind, tryCount): string {
      let n = requestedName;
      n = n.endsWith('$') ? n.substring(1) : n;
      return n + '$' + tryCount;
  }
  \<close>
\<close>

definition defaultClashResolver ::
  "AnyTypeDescriptorProto \<Rightarrow> GeneratedFile \<Rightarrow> string \<Rightarrow> string \<Rightarrow> nat \<Rightarrow> string" where
  "defaultClashResolver d f requestedName k tryCount =
     (let n = requestedName;
          n = (if endsWith n ''$'' then substring n 1 else n)
      in n @ ''$'' @ number_toString tryCount)"

text \<open>
  The constructor: \<^verbatim>\<open>this.clashResolver = clashResolver ?? SymbolTable.defaultClashResolver\<close>,
  with \<^verbatim>\<open>entries\<close> empty. The default resolver takes no sixth argument, so the
  failed name it is passed is dropped.
\<close>

definition new_SymbolTable :: "ClashResolver option \<Rightarrow> SymbolTable" where
  "new_SymbolTable r =
     \<lparr> entries = [],
       clashResolver = (case r of
          None \<Rightarrow> (\<lambda>d f requestedName k tryCount failedName.
                     defaultClashResolver d f requestedName k tryCount)
        | Some c \<Rightarrow> c) \<rparr>"

subsection \<open>Lookup\<close>

text \<open>
  \<^verbatim>\<open>find(descriptor, kind = 'default')\<close> is
  \<^verbatim>\<open>this.entries.find(e => e.descriptor === descriptor && e.kind === kind)\<close>: the first
  entry that matches, or \<^verbatim>\<open>undefined\<close>. Where a parameter has a default value the
  model takes the value after defaulting, \<open>default_kind\<close> when the caller passes none;
  \<^verbatim>\<open>has\<close> below is the one method whose behaviour depends on which arguments were
  passed, and there the optional arguments are explicit. The methods \<^verbatim>\<open>find\<close> and
  \<^verbatim>\<open>list\<close> are \<open>find_entry\<close> and \<open>list_entries\<close> here, \<open>find\<close> and \<open>list\<close>
  being names of the list library.
\<close>

definition default_kind :: string where
  "default_kind = ''default''"

definition find_entry ::
  "SymbolTable \<Rightarrow> AnyTypeDescriptorProto \<Rightarrow> string \<Rightarrow> SymbolTableEntry option" where
  "find_entry st d k = List.find (\<lambda>e. descriptor e = d \<and> kind e = k) (entries st)"

text \<open>
  \<^verbatim>\<open>array.indexOf(value)\<close>: the first index holding the value, \<open>-1\<close> when there is
  none; and \<^verbatim>\<open>array.filter((value, index, array) => ...)\<close>, whose callback sees the
  index and the whole array.
\<close>

fun indexOf :: "'a list \<Rightarrow> 'a \<Rightarrow> int" where
  "indexOf [] v = -1"
| "indexOf (x # xs) v =
     (if x = v then 0 else (let i = indexOf xs v in if i = -1 then -1 else i + 1))"

definition filter_indexed :: "('a \<Rightarrow> nat \<Rightarrow> 'a list \<Rightarrow> bool) \<Rightarrow> 'a list \<Rightarrow> 'a list" where
  "filter_indexed p array =
     map fst (filter (\<lambda>(value, index). p value index array) (zip array [0..<length array]))"

text \<open>
  \<^verbatim>\<open>
  get(descriptor, kind = 'default'): SymbolTableEntry {
      const found = this.find(descriptor, kind);
      if (!found) {
          let files = this.entries.map(e => e.file)
              .filter((value, index, array) => array.indexOf(value) === index);
          let msg = `... Searched in ${files.length} files.`
          throw new Error(msg);
      }
      return found;
  }
  \<close>
\<close>

definition searched_files :: "SymbolTable \<Rightarrow> GeneratedFile list" where
  "searched_files st =
     filter_indexed (\<lambda>value index array. indexOf array value = int index)
       (map file (entries st))"

definition get :: "SymbolTable \<Rightarrow> AnyTypeDescriptorProto \<Rightarrow> string \<Rightarrow> error + SymbolTableEntry" where
  "get st d k =
     (case find_entry st d k of
        None \<Rightarrow> Inl (SymbolNotFound d k (length (searched_files st)))
      | Some found \<Rightarrow> Inr found)"

text \<open>
  \<^verbatim>\<open>
  has(descriptor, kind?: string): boolean;
  has(descriptor, file: GeneratedFile, kind?: string): boolean;
  has(descriptor, b: GeneratedFile | string = 'default', kind = 'default'): boolean {
      return this.find(descriptor, kind) !== undefined;
  }
  \<close>
  The second argument \<^verbatim>\<open>b\<close> is a file or a string, the third a string; either may be
  left out (\<open>None\<close>) and then takes its default. A call with two arguments,
  \<^verbatim>\<open>has(descriptor, kind)\<close>, binds the kind to \<^verbatim>\<open>b\<close> and leaves the third
  parameter at its default.
\<close>

datatype file_or_kind = IsFile GeneratedFile | IsKind string

definition has ::
  "SymbolTable \<Rightarrow> AnyTypeDescriptorProto \<Rightarrow> file_or_kind option \<Rightarrow> string option \<Rightarrow> bool" where
  "has st d b_arg kind_arg =
     (let b = (case b_arg of None \<Rightarrow> IsKind ''default'' | Some x \<Rightarrow> x);
          k = (case kind_arg of None \<Rightarrow> ''default'' | Some x \<Rightarrow> x)
      in find_entry st d k \<noteq> None)"

text \<open>
  \<^verbatim>\<open>
  list(file: GeneratedFile, kind?: string): SymbolTableEntry[] {
      let matches = this.entries.filter(e => e.file === file);
      if (kind !== undefined) {
          matches = matches.filter(e => e.kind === kind);
      }
      return matches;
  }
  \<close>
\<close>

definition list_entries ::
  "SymbolTable \<Rightarrow> GeneratedFile \<Rightarrow> string option \<Rightarrow> SymbolTableEntry list" where
  "list_entries st f kind_arg =
     (let matches = filter (\<lambda>e. file e = f) (entries st)
      in case kind_arg of
           None \<Rightarrow> matches
         | Some k \<Rightarrow> filter (\<lambda>e. kind e = k) matches)"

text \<open>
  \<^verbatim>\<open>hasNameInFile = (name, file) => this.entries.some(e => e.file === file && e.name === name)\<close>
\<close>

definition hasNameInFile :: "SymbolTable \<Rightarrow> string \<Rightarrow> GeneratedFile \<Rightarrow> bool" where
  "hasNameInFile st n f = list_ex (\<lambda>e. file e = f \<and> name e = n) (entries st)"

subsection \<open>Registration\<close>

text \<open>
  The loop of \<^verbatim>\<open>register\<close>:
  \<^verbatim>\<open>
  let name = requestedName;
  let count = 0;
  while (this.hasNameInFile(name, file) && count < this.clashResolveMaxTries) {
      name = this.clashResolver(descriptor, file, requestedName, kind, ++count, name);
  }
  \<close>
  The loop state is \<^verbatim>\<open>name\<close> and \<^verbatim>\<open>count\<close>. The third component is a log of
  the resolver's invocations, one tuple of arguments per call in call order; nothing
  reads it, it is there so that the number and the arguments of the calls can be
  stated. \<^verbatim>\<open>++count\<close> increments before the call, so the resolver sees \<open>count + 1\<close>.
\<close>

type_synonym resolver_call =
  "AnyTypeDescriptorProto \<times> GeneratedFile \<times> string \<times> string \<times> nat \<times> string"

function find_free_name ::
  "SymbolTable \<Rightarrow> AnyTypeDescriptorProto \<Rightarrow> GeneratedFile \<Rightarrow> string \<Rightarrow> string
    \<Rightarrow> string \<Rightarrow> nat \<Rightarrow> resolver_call list \<Rightarrow> string \<times> nat \<times> resolver_call list" where
  "find_free_name st d f requestedName k n count calls =
     (if hasNameInFile st n f \<and> count < clashResolveMaxTries
      then find_free_name st d f requestedName k
             (clashResolver st d f requestedName k (count + 1) n)
             (count + 1)
             (calls @ [(d, f, requestedName, k, count + 1, n)])
      else (n, count, calls))"
  by pat_completeness auto
termination
  by (relation "measure (\<lambda>(st, d, f, requestedName, k, n, count, calls).
        clashResolveMaxTries - count)") auto

declare find_free_name.simps [simp del]

text \<open>
  \<^verbatim>\<open>
  register(requestedName, descriptor, file, kind = 'default'): string {
      if (this.has(descriptor, kind)) {
          let {file, name} = this.get(descriptor, kind);
          throw new Error(`Cannot register name ...`);
      }
      ... the loop ...
      if (this.hasNameInFile(name, file)) {
          throw new Error(`Failed to register name ...`);
      }
      this.entries.push({file, descriptor, kind, name});
      return name;
  }
  \<close>
  The result pairs what the call returns or throws with the table afterwards. The
  call \<^verbatim>\<open>this.get(descriptor, kind)\<close> can itself throw, and then that error leaves
  \<^verbatim>\<open>register\<close>.
\<close>

definition register ::
  "SymbolTable \<Rightarrow> string \<Rightarrow> AnyTypeDescriptorProto \<Rightarrow> GeneratedFile \<Rightarrow> string
    \<Rightarrow> (error + string) \<times> SymbolTable" where
  "register st requestedName d f k =
     (if has st d (Some (IsKind k)) None then
        (case get st d k of
           Inl err \<Rightarrow> (Inl err, st)
         | Inr found \<Rightarrow>
             (Inl (DuplicateRegistration requestedName k d (file found) (name found)), st))
      else
        (case find_free_name st d f requestedName k requestedName 0 [] of
           (n, count, calls) \<Rightarrow>
             if hasNameInFile st n f then
               (Inl (ClashResolutionExhausted requestedName d clashResolveMaxTries), st)
             else
               (Inr n,
                st\<lparr>entries := entries st @
                  [\<lparr>file = f, descriptor = d, name = n, kind = k\<rparr>]\<rparr>)))"

text \<open>
  The operations of the class, and a table driven through a sequence of them from its
  construction. Only \<^verbatim>\<open>register\<close> writes \<^verbatim>\<open>entries\<close>; an operation that throws
  leaves the table to the next one as it is.
\<close>

datatype operation =
    Register string AnyTypeDescriptorProto GeneratedFile string
  | Find AnyTypeDescriptorProto string
  | Get AnyTypeDescriptorProto string
  | Has AnyTypeDescriptorProto "file_or_kind option" "string option"
  | List GeneratedFile "string option"

fun apply_operation :: "SymbolTable \<Rightarrow> operation \<Rightarrow> SymbolTable" where
  "apply_operation st (Register requestedName d f k) = snd (register st requestedName d f k)"
| "apply_operation st (Find d k) = st"
| "apply_operation st (Get d k) = st"
| "apply_operation st (Has d b k) = st"
| "apply_operation st (List f k) = st"

definition run :: "ClashResolver option \<Rightarrow> operation list \<Rightarrow> SymbolTable" where
  "run r ops = foldl apply_operation (new_SymbolTable r) ops"


subsection \<open>Fixtures\<close>

text \<open>
  The descriptors and files of the scenarios, and a resolver constructed to return one
  fixed name whatever it is asked.
\<close>

definition d1 :: AnyTypeDescriptorProto where "d1 = Descriptor 1"
definition d2 :: AnyTypeDescriptorProto where "d2 = Descriptor 2"
definition d3 :: AnyTypeDescriptorProto where "d3 = Descriptor 3"
definition d4 :: AnyTypeDescriptorProto where "d4 = Descriptor 4"
definition fileX :: GeneratedFile where "fileX = File 1"
definition fileY :: GeneratedFile where "fileY = File 2"

definition always :: "string \<Rightarrow> ClashResolver" where
  "always s d f requestedName k tryCount failedName = s"

text \<open>
  Three tables, each reached from construction: one entry of kind \<open>class\<close> under the
  default resolver; the name \<open>Foo\<close> taken in \<open>fileX\<close> under the resolver that always
  returns \<open>Foo\<close>; and three entries in two files.
\<close>

definition one_class_entry :: SymbolTable where
  "one_class_entry = run None [Register ''Foo'' d1 fileX ''class'']"

definition foo_taken :: SymbolTable where
  "foo_taken = run (Some (always ''Foo'')) [Register ''Foo'' d1 fileX default_kind]"

definition two_files :: SymbolTable where
  "two_files =
     run None [Register ''Foo'' d1 fileX default_kind, Register ''Bar'' d2 fileY default_kind,
       Register ''Baz'' d3 fileX ''class'']"

section \<open>Conversion of 64 bit integers\<close>

text \<open>
  \<^verbatim>\<open>
  export function reflectionLongConvert(long: PbLong | PbULong, type: LongType | undefined)
          : string | number | bigint {
      switch (type) {
          case LongType.BIGINT: return long.toBigInt();
          case LongType.NUMBER: return long.toNumber();
          default:              return long.toString();   // undefined, LongType.STRING
      }
  }
  \<close>
  The classes \<^verbatim>\<open>PbLong\<close> and \<^verbatim>\<open>PbULong\<close> (\<^verbatim>\<open>pb-long.ts\<close>) and the enum
  \<^verbatim>\<open>LongType\<close> (\<^verbatim>\<open>reflection-info.ts\<close>) are declared elsewhere and not embedded.
  The function uses a long only through its three conversion methods, so a long is the
  record of what the three return, each of a type left open (a method that can throw
  returns a sum). The enum has the three members the function names; a missing type
  argument, \<^verbatim>\<open>undefined\<close>, is \<open>None\<close>.
\<close>

datatype LongType = BIGINT | NUMBER | STRING

record ('b, 'n, 's) PbLong =
  toBigInt :: 'b
  toNumber :: 'n
  toString :: 's

datatype ('b, 'n, 's) long_value = AsBigInt 'b | AsNumber 'n | AsString 's

definition reflectionLongConvert ::
  "('b, 'n, 's) PbLong \<Rightarrow> LongType option \<Rightarrow> ('b, 'n, 's) long_value" where
  "reflectionLongConvert long t =
     (case t of
        Some BIGINT \<Rightarrow> AsBigInt (toBigInt long)
      | Some NUMBER \<Rightarrow> AsNumber (toNumber long)
      | _ \<Rightarrow> AsString (toString long))"

section \<open>Properties\<close>

subsection \<open>Evaluation\<close>

text \<open>The equations that evaluate the model on a concrete table.\<close>

lemmas fixtures = d1_def d2_def d3_def d4_def fileX_def fileY_def always_def default_kind_def
  one_class_entry_def foo_taken_def two_files_def

lemmas table_defs = run_def new_SymbolTable_def register_def has_def get_def find_entry_def
  hasNameInFile_def find_free_name.simps clashResolveMaxTries_def searched_files_def
  filter_indexed_def list_entries_def

lemmas resolver_defs = defaultClashResolver_def endsWith_def substring_def digit_def
  number_toString.simps

subsection \<open>Conversion of longs\<close>



text \<open>
  C10. \<^verbatim>\<open>reflectionLongConvert\<close> returns \<^verbatim>\<open>long.toBigInt()\<close> for \<^verbatim>\<open>BIGINT\<close>,
  \<^verbatim>\<open>long.toNumber()\<close> for \<^verbatim>\<open>NUMBER\<close>, and \<^verbatim>\<open>long.toString()\<close> for \<^verbatim>\<open>STRING\<close>
  and for an undefined type alike; for every type argument it returns one of the three.
\<close>

theorem reflectionLongConvert_cases:
  "reflectionLongConvert long (Some BIGINT) = AsBigInt (toBigInt long)
   \<and> reflectionLongConvert long (Some NUMBER) = AsNumber (toNumber long)
   \<and> reflectionLongConvert long (Some STRING) = AsString (toString long)
   \<and> reflectionLongConvert long None = AsString (toString long)
   \<and> reflectionLongConvert long None = reflectionLongConvert long (Some STRING)
   \<and> (\<forall>t. reflectionLongConvert long t = AsBigInt (toBigInt long)
          \<or> reflectionLongConvert long t = AsNumber (toNumber long)
          \<or> reflectionLongConvert long t = AsString (toString long))"
proof -
  have "reflectionLongConvert long t = AsBigInt (toBigInt long)
      \<or> reflectionLongConvert long t = AsNumber (toNumber long)
      \<or> reflectionLongConvert long t = AsString (toString long)" for t
    by (simp add: reflectionLongConvert_def split: option.split LongType.split)
  then show ?thesis
    by (simp add: reflectionLongConvert_def)
qed

subsection \<open>The default clash resolver\<close>

text \<open>
  C4. The claim is that the default resolver strips a trailing \<open>$\<close> and appends
  \<open>$\<close> and the try count, so that \<open>Foo$\<close> at try 1 gives \<open>Foo$1\<close>. The source tests
  \<^verbatim>\<open>n.endsWith('$')\<close> and then takes \<^verbatim>\<open>n.substring(1)\<close>, which drops the first
  character and keeps the trailing \<open>$\<close>: on \<open>Foo$\<close> at try 1 it returns \<open>oo$$1\<close>.
\<close>

theorem defaultClashResolver_drops_first_character:
  "defaultClashResolver d1 fileX ''Foo$'' default_kind 1 = ''oo$$1''
   \<and> defaultClashResolver d1 fileX ''Foo$'' default_kind 1 \<noteq> ''Foo$1''"
  by (simp add: resolver_defs)

text \<open>On a requested name that does not end in \<open>$\<close> the resolver only appends.\<close>

lemma defaultClashResolver_appends:
  "\<not> endsWith requestedName ''$'' \<Longrightarrow> tryCount < 10 ^ 21 \<Longrightarrow>
   defaultClashResolver d f requestedName k tryCount =
     requestedName @ ''$'' @ number_toString tryCount"
  by (simp add: defaultClashResolver_def)

subsection \<open>The duplicate check\<close>

text \<open>
  \<^verbatim>\<open>has\<close> never reads its second argument: whatever is passed there, the lookup is
  for the third argument, and for the kind \<open>default\<close> when there is none. The call
  \<^verbatim>\<open>this.has(descriptor, kind)\<close> in \<^verbatim>\<open>register\<close> therefore asks for the kind
  \<open>default\<close>.
\<close>

lemma has_ignores_second_argument:
  "has st d b kind_arg =
     (find_entry st d (case kind_arg of None \<Rightarrow> ''default'' | Some x \<Rightarrow> x) \<noteq> None)"
  by (simp add: has_def)

text \<open>
  C1. The claim is that \<^verbatim>\<open>register\<close> fails with the duplicate registration error
  exactly when an entry for the descriptor and kind exists. On the source, after
  \<^verbatim>\<open>register("Foo", d1, fileX, "class")\<close> has succeeded and its entry is in the table,
  \<^verbatim>\<open>register("Bar", d1, fileX, "class")\<close> succeeds as well and returns \<open>Bar\<close>.
\<close>

theorem register_same_kind_twice_succeeds:
  "fst (register (run None []) ''Foo'' d1 fileX ''class'') = Inr ''Foo''
   \<and> find_entry one_class_entry d1 ''class''
       = Some \<lparr>file = fileX, descriptor = d1, name = ''Foo'', kind = ''class''\<rparr>
   \<and> fst (register one_class_entry ''Bar'' d1 fileX ''class'')
       = Inr ''Bar''"
  by (simp add: table_defs fixtures)

text \<open>
  C2. The claim is that at most one entry exists for a descriptor and kind. On the
  source the two registrations above both append: the table then holds two entries for
  \<open>d1\<close> of kind \<open>class\<close>.
\<close>

theorem two_entries_for_one_descriptor_and_kind:
  "entries (run None [Register ''Foo'' d1 fileX ''class'', Register ''Bar'' d1 fileX ''class''])
     = [\<lparr>file = fileX, descriptor = d1, name = ''Foo'', kind = ''class''\<rparr>,
        \<lparr>file = fileX, descriptor = d1, name = ''Bar'', kind = ''class''\<rparr>]
   \<and> length (filter (\<lambda>e. descriptor e = d1 \<and> kind e = ''class'')
       (entries (run None
          [Register ''Foo'' d1 fileX ''class'', Register ''Bar'' d1 fileX ''class'']))) = 2"
  by (simp add: table_defs fixtures)

text \<open>
  C3. The claim is that \<^verbatim>\<open>has(descriptor, kind)\<close> agrees with \<^verbatim>\<open>find\<close> and that
  \<^verbatim>\<open>has(descriptor, file, kind)\<close> looks in that file only. On the source, with the one
  entry of \<open>d1\<close> of kind \<open>class\<close> in \<open>fileX\<close>: \<^verbatim>\<open>find(d1, "class")\<close> returns the entry
  and \<^verbatim>\<open>has(d1, "class")\<close> is false; \<open>fileY\<close> lists no entry and
  \<^verbatim>\<open>has(d1, fileY, "class")\<close> is true.
\<close>

theorem has_disagrees_with_find_and_file:
  "find_entry one_class_entry d1 ''class''
       = Some \<lparr>file = fileX, descriptor = d1, name = ''Foo'', kind = ''class''\<rparr>
   \<and> has one_class_entry d1 (Some (IsKind ''class'')) None = False
   \<and> list_entries one_class_entry fileY (Some ''class'') = []
   \<and> has one_class_entry d1 (Some (IsFile fileY)) (Some ''class'') = True"
  by (simp add: table_defs fixtures)

text \<open>
  C5. The claim is that after a successful \<^verbatim>\<open>register(n, d, f, k)\<close> returning a name,
  \<^verbatim>\<open>find(d, k)\<close> returns an entry with that name in that file. On the source, with the
  entry \<open>Foo\<close> of \<open>d1\<close> and kind \<open>class\<close> in \<open>fileX\<close>,
  \<^verbatim>\<open>register("Bar", d1, fileY, "class")\<close> succeeds with \<open>Bar\<close>, and \<^verbatim>\<open>find(d1, "class")\<close>
  afterwards returns the first entry: \<open>Foo\<close> in \<open>fileX\<close>.
\<close>

theorem find_after_register_returns_older_entry:
  "fst (register one_class_entry ''Bar'' d1 fileY ''class'') = Inr ''Bar''
   \<and> find_entry (snd (register one_class_entry ''Bar'' d1 fileY ''class'')) d1 ''class''
       = Some \<lparr>file = fileX, descriptor = d1, name = ''Foo'', kind = ''class''\<rparr>"
  by (simp add: table_defs fixtures)

text \<open>
  C8. The claim is that \<^verbatim>\<open>register\<close> either appends one entry and returns its name,
  or raises one of the duplicate registration and exhausted resolution errors and
  leaves the entries alone. On the source, with \<open>d1\<close> registered under the kind
  \<open>default\<close>, \<^verbatim>\<open>register("Bar", d1, fileX, "class")\<close> finds \<^verbatim>\<open>has\<close> true, and the
  \<^verbatim>\<open>get(d1, "class")\<close> that is to fill in the message throws the not found error; the
  entries stay as they were.
\<close>

theorem register_raises_not_found:
  "entries (run None [Register ''Foo'' d1 fileX default_kind])
     = [\<lparr>file = fileX, descriptor = d1, name = ''Foo'', kind = ''default''\<rparr>]
   \<and> fst (register (run None [Register ''Foo'' d1 fileX default_kind])
            ''Bar'' d1 fileX ''class'')
     = Inl (SymbolNotFound d1 ''class'' 1)
   \<and> entries (snd (register (run None [Register ''Foo'' d1 fileX default_kind])
            ''Bar'' d1 fileX ''class''))
     = [\<lparr>file = fileX, descriptor = d1, name = ''Foo'', kind = ''default''\<rparr>]"
  by (simp add: table_defs fixtures)

subsection \<open>All or nothing\<close>

lemma hasNameInFile_iff:
  "hasNameInFile st n f \<longleftrightarrow> (f, n) \<in> set (map (\<lambda>e. (file e, name e)) (entries st))"
  by (auto simp: hasNameInFile_def list_ex_iff)

text \<open>
  Whatever error leaves \<^verbatim>\<open>register\<close>, the table is the one before the call; and a
  call that returns a name has appended the one entry with that name, which was free
  in the file.
\<close>

lemma register_all_or_nothing:
  "(\<exists>err. register st requestedName d f k = (Inl err, st))
   \<or> (\<exists>n. \<not> hasNameInFile st n f
          \<and> register st requestedName d f k =
              (Inr n, st\<lparr>entries := entries st @
                 [\<lparr>file = f, descriptor = d, name = n, kind = k\<rparr>]\<rparr>))"
  by (simp add: register_def split: sum.split prod.split)

lemma register_keeps_names_distinct:
  assumes "distinct (map (\<lambda>e. (file e, name e)) (entries st))"
  shows "distinct (map (\<lambda>e. (file e, name e)) (entries (snd (register st requestedName d f k))))"
  using register_all_or_nothing [of st requestedName d f k] assms
  by (auto simp: hasNameInFile_iff)

lemma apply_operation_keeps_names_distinct:
  "distinct (map (\<lambda>e. (file e, name e)) (entries st)) \<Longrightarrow>
   distinct (map (\<lambda>e. (file e, name e)) (entries (apply_operation st op)))"
  by (cases op) (simp_all add: register_keeps_names_distinct)

lemma foldl_keeps_names_distinct:
  "distinct (map (\<lambda>e. (file e, name e)) (entries st)) \<Longrightarrow>
   distinct (map (\<lambda>e. (file e, name e)) (entries (foldl apply_operation st ops)))"
  by (induction ops arbitrary: st) (simp_all add: apply_operation_keeps_names_distinct)

lemma run_names_distinct:
  "distinct (map (\<lambda>e. (file e, name e)) (entries (run r ops)))"
  unfolding run_def by (rule foldl_keeps_names_distinct) (simp add: new_SymbolTable_def)

subsection \<open>The resolution loop\<close>





subsection \<open>Names are unique within a file\<close>

lemma distinct_map_filter_le_1:
  "distinct (map g xs) \<Longrightarrow> length (filter (\<lambda>x. g x = v) xs) \<le> 1"
proof (induction xs)
  case Nil
  then show ?case by simp
next
  case (Cons x xs)
  show ?case
  proof (cases "g x = v")
    case True
    with Cons.prems have "v \<notin> g ` set xs" by auto
    then have "filter (\<lambda>x. g x = v) xs = []"
      by (auto simp: filter_empty_conv)
    with True show ?thesis by simp
  next
    case False
    with Cons show ?thesis by simp
  qed
qed

text \<open>
  C7. In the table reached from construction, with any resolver, by any sequence of
  operations: for every file and name at most one entry exists; two registrations that
  were entered with the same file and the same name are one and the same, and so have
  the same descriptor and kind.
\<close>

theorem file_uniqueness_invariant:
  "(\<forall>f n. length (filter (\<lambda>e. file e = f \<and> name e = n) (entries (run r ops))) \<le> 1)
   \<and> (\<forall>i j. i < length (entries (run r ops)) \<and> j < length (entries (run r ops))
          \<and> file (entries (run r ops) ! i) = file (entries (run r ops) ! j)
          \<and> name (entries (run r ops) ! i) = name (entries (run r ops) ! j)
        \<longrightarrow> i = j
          \<and> descriptor (entries (run r ops) ! i) = descriptor (entries (run r ops) ! j)
          \<and> kind (entries (run r ops) ! i) = kind (entries (run r ops) ! j))"
proof -
  let ?es = "entries (run r ops)"
  have dist: "distinct (map (\<lambda>e. (file e, name e)) ?es)"
    by (rule run_names_distinct)
  have "length (filter (\<lambda>e. file e = f \<and> name e = n) ?es) \<le> 1" for f n
    using distinct_map_filter_le_1 [OF dist, of "(f, n)"] by simp
  moreover have "i = j" if "i < length ?es" "j < length ?es"
      "file (?es ! i) = file (?es ! j)" "name (?es ! i) = name (?es ! j)" for i j
  proof -
    have "map (\<lambda>e. (file e, name e)) ?es ! i = map (\<lambda>e. (file e, name e)) ?es ! j"
      using that by simp
    then show ?thesis
      using dist that(1,2) by (simp add: nth_eq_iff_index_eq del: nth_map)
  qed
  ultimately show ?thesis by blast
qed

theorem file_uniqueness_invariant_witness:
  "entries (run None [Register ''Foo'' d1 fileX default_kind, Find d1 default_kind,
      Register ''Foo'' d2 fileX default_kind, Register ''Foo'' d3 fileX default_kind,
      Register ''Foo'' d3 fileX default_kind])
     = [\<lparr>file = fileX, descriptor = d1, name = ''Foo'', kind = ''default''\<rparr>,
        \<lparr>file = fileX, descriptor = d2, name = ''Foo$1'', kind = ''default''\<rparr>,
        \<lparr>file = fileX, descriptor = d3, name = ''Foo$2'', kind = ''default''\<rparr>]
   \<and> length (filter (\<lambda>e. file e = fileX \<and> name e = ''Foo'')
       (entries (run None [Register ''Foo'' d1 fileX default_kind, Find d1 default_kind,
      Register ''Foo'' d2 fileX default_kind, Register ''Foo'' d3 fileX default_kind,
      Register ''Foo'' d3 fileX default_kind]))) \<le> 1"
  using file_uniqueness_invariant [of None "[Register ''Foo'' d1 fileX default_kind, Find d1 default_kind,
      Register ''Foo'' d2 fileX default_kind, Register ''Foo'' d3 fileX default_kind,
      Register ''Foo'' d3 fileX default_kind]"]
  by (simp add: table_defs resolver_defs fixtures)

subsection \<open>Lookup that must succeed\<close>

lemma indexOf_absent: "v \<notin> set xs \<Longrightarrow> indexOf xs v = -1"
  by (induction xs) (auto simp: Let_def)

lemma indexOf_present:
  "v \<in> set xs \<Longrightarrow> 0 \<le> indexOf xs v \<and> nat (indexOf xs v) < length xs \<and> xs ! nat (indexOf xs v) = v"
proof (induction xs)
  case Nil
  then show ?case by simp
next
  case (Cons x xs)
  show ?case
  proof (cases "x = v")
    case True
    then show ?thesis by simp
  next
    case False
    with Cons.prems have "v \<in> set xs" by simp
    from Cons.IH [OF this] False show ?thesis
      by (auto simp: Let_def nat_add_distrib)
  qed
qed

lemma filter_indexed_nth:
  "filter_indexed p xs = map (\<lambda>i. xs ! i) (filter (\<lambda>i. p (xs ! i) i xs) [0..<length xs])"
proof -
  have "zip xs [0..<length xs] = map (\<lambda>i. (xs ! i, i)) [0..<length xs]"
    by (rule nth_equalityI) simp_all
  then show ?thesis
    by (simp add: filter_indexed_def filter_map comp_def)
qed

lemma first_occurrences_distinct:
  "distinct (filter_indexed (\<lambda>value index array. indexOf array value = int index) xs)"
proof -
  have "inj_on (\<lambda>i. xs ! i) {i. i < length xs \<and> indexOf xs (xs ! i) = int i}"
  proof (rule inj_onI)
    fix i j
    assume "i \<in> {i. i < length xs \<and> indexOf xs (xs ! i) = int i}"
      and "j \<in> {i. i < length xs \<and> indexOf xs (xs ! i) = int i}"
      and same: "xs ! i = xs ! j"
    then have "indexOf xs (xs ! i) = int i" and "indexOf xs (xs ! j) = int j"
      by simp_all
    with same have "int i = int j" by (simp only:)
    then show "i = j" by simp
  qed
  moreover have "set (filter (\<lambda>i. indexOf xs (xs ! i) = int i) [0..<length xs]) =
      {i. i < length xs \<and> indexOf xs (xs ! i) = int i}"
    by auto
  ultimately show ?thesis
    unfolding filter_indexed_nth by (simp only: distinct_map distinct_filter distinct_upt simp_thms)
qed

lemma first_occurrences_set:
  "set (filter_indexed (\<lambda>value index array. indexOf array value = int index) xs) = set xs"
proof
  show "set (filter_indexed (\<lambda>value index array. indexOf array value = int index) xs) \<subseteq> set xs"
    unfolding filter_indexed_nth by auto
  show "set xs \<subseteq> set (filter_indexed (\<lambda>value index array. indexOf array value = int index) xs)"
  proof
    fix v assume "v \<in> set xs"
    from indexOf_present [OF this]
    have "nat (indexOf xs v) < length xs" "xs ! nat (indexOf xs v) = v"
      "indexOf xs (xs ! nat (indexOf xs v)) = int (nat (indexOf xs v))"
      by simp_all
    then show "v \<in> set (filter_indexed (\<lambda>value index array. indexOf array value = int index) xs)"
      unfolding filter_indexed_nth set_map set_filter
      by (intro image_eqI [where x = "nat (indexOf xs v)"]) simp_all
  qed
qed

lemma length_searched_files: "length (searched_files st) = card (file ` set (entries st))"
proof -
  have "length (searched_files st) = card (set (searched_files st))"
    unfolding searched_files_def by (simp add: distinct_card first_occurrences_distinct)
  also have "\<dots> = card (set (map file (entries st)))"
    unfolding searched_files_def by (simp only: first_occurrences_set)
  finally show ?thesis by simp
qed

text \<open>
  C9. \<^verbatim>\<open>get\<close> returns the entry that \<^verbatim>\<open>find\<close> returns when there is one; when
  \<^verbatim>\<open>find\<close> returns none it fails with the not found error, whose message carries the
  number of distinct files that hold an entry.
\<close>

theorem get_agrees_with_find:
  "(\<forall>e. find_entry st d k = Some e \<longrightarrow> get st d k = Inr e)
   \<and> (find_entry st d k = None \<longrightarrow>
        get st d k = Inl (SymbolNotFound d k (card (file ` set (entries st)))))"
  by (simp add: get_def length_searched_files)

theorem get_agrees_with_find_witness:
  "find_entry two_files d3 ''class''
       = Some \<lparr>file = fileX, descriptor = d3, name = ''Baz'', kind = ''class''\<rparr>
   \<and> get two_files d3 ''class''
       = Inr \<lparr>file = fileX, descriptor = d3, name = ''Baz'', kind = ''class''\<rparr>
   \<and> find_entry two_files d4 ''class'' = None
   \<and> get two_files d4 ''class'' = Inl (SymbolNotFound d4 ''class'' 2)"
proof -
  have found: "find_entry two_files d3 ''class''
       = Some \<lparr>file = fileX, descriptor = d3, name = ''Baz'', kind = ''class''\<rparr>"
    by (simp add: table_defs fixtures)
  have absent: "find_entry two_files d4 ''class'' = None"
    by (simp add: table_defs fixtures)
  have files: "card (file ` set (entries two_files)) = 2"
    by (simp add: table_defs fixtures card_insert_if)
  from get_agrees_with_find [of two_files d3 "''class''"]
       get_agrees_with_find [of two_files d4 "''class''"]
       found absent files
  show ?thesis by simp
qed

end
